theory Spec2Isabelle
  imports Main "HOL-Library.Sublist"
begin

section \<open>JavaScript values\<close>

text \<open>
  The update handled by \<^verbatim>\<open>TelegrafContext\<close> (src/context.ts) is a parsed JSON document.
  A value is \<^verbatim>\<open>undefined\<close>, \<^verbatim>\<open>null\<close>, a boolean, a number (identifiers are integers),
  a string or an object; an object is the list of its own properties, looked up by key
  (an array is the object of its indices). None of the keys read by the source is a
  property of a primitive or of \<^verbatim>\<open>Object.prototype\<close>, so reading such a key from a
  primitive yields \<^verbatim>\<open>undefined\<close>.
\<close>

datatype jsval =
    Undefined
  | Null
  | Bool bool
  | Num int
  | Str string
  | Obj "(string \<times> jsval) list"

type_synonym object = "(string \<times> jsval) list"

text \<open>What a method of the context can throw: the \<^verbatim>\<open>Error\<close> raised by \<^verbatim>\<open>assert\<close>
  with its message, or the \<^verbatim>\<open>TypeError\<close> of the runtime (a property of
  \<^verbatim>\<open>undefined\<close>/\<^verbatim>\<open>null\<close>, \<^verbatim>\<open>in\<close> applied to a primitive, a call of something that is
  not a function).\<close>

datatype js_error = Error string | TypeError

text \<open>A call of the outbound invoker \<^verbatim>\<open>this.telegram\<close>: the method called and its
  positional arguments.\<close>

datatype call = Call string "jsval list"

text \<open>\<^verbatim>\<open>key in o\<close> for an object \<^verbatim>\<open>o\<close>.\<close>

definition has_key :: "object \<Rightarrow> string \<Rightarrow> bool" where
  "has_key fs key = (map_of fs key \<noteq> None)"

text \<open>\<^verbatim>\<open>o.key\<close> for an object \<^verbatim>\<open>o\<close>.\<close>

definition field :: "object \<Rightarrow> string \<Rightarrow> jsval" where
  "field fs key = (case map_of fs key of None \<Rightarrow> Undefined | Some v \<Rightarrow> v)"

definition nullish :: "jsval \<Rightarrow> bool" where
  "nullish v = (v = Undefined \<or> v = Null)"

text \<open>\<^verbatim>\<open>a ?? b\<close>.\<close>

definition coalesce :: "jsval \<Rightarrow> jsval \<Rightarrow> jsval" where
  "coalesce a b = (if nullish a then b else a)"

text \<open>\<^verbatim>\<open>v.key\<close>: a \<^verbatim>\<open>TypeError\<close> on \<^verbatim>\<open>undefined\<close> and \<^verbatim>\<open>null\<close>.\<close>

fun get_prop :: "jsval \<Rightarrow> string \<Rightarrow> js_error + jsval" where
  "get_prop Undefined key = Inl TypeError"
| "get_prop Null key = Inl TypeError"
| "get_prop (Obj fs) key = Inr (field fs key)"
| "get_prop v key = Inr Undefined"

text \<open>\<^verbatim>\<open>v?.key\<close>.\<close>

fun opt_prop :: "jsval \<Rightarrow> string \<Rightarrow> jsval" where
  "opt_prop (Obj fs) key = field fs key"
| "opt_prop v key = Undefined"

text \<open>\<^verbatim>\<open>!v\<close> is \<^verbatim>\<open>\<not> truthy v\<close>.\<close>

fun truthy :: "jsval \<Rightarrow> bool" where
  "truthy Undefined = False"
| "truthy Null = False"
| "truthy (Bool b) = b"
| "truthy (Num n) = (n \<noteq> 0)"
| "truthy (Str s) = (s \<noteq> [])"
| "truthy (Obj fs) = True"

section \<open>The taxonomy\<close>

definition UpdateTypes :: "string list" where
  "UpdateTypes =
    [''callback_query'', ''channel_post'', ''chosen_inline_result'', ''edited_channel_post'',
     ''edited_message'', ''inline_query'', ''shipping_query'', ''pre_checkout_query'',
     ''message'', ''poll'', ''poll_answer'']"

definition MessageSubTypes :: "string list" where
  "MessageSubTypes =
    [''voice'', ''video_note'', ''video'', ''animation'', ''venue'', ''text'',
     ''supergroup_chat_created'', ''successful_payment'', ''sticker'', ''pinned_message'',
     ''photo'', ''new_chat_title'', ''new_chat_photo'', ''new_chat_members'',
     ''migrate_to_chat_id'', ''migrate_from_chat_id'', ''location'', ''left_chat_member'',
     ''invoice'', ''group_chat_created'', ''game'', ''dice'', ''document'',
     ''delete_chat_photo'', ''contact'', ''channel_chat_created'', ''audio'',
     ''connected_website'', ''passport_data'', ''poll'', ''forward_date'']"

definition MessageSubTypesMapping :: "(string \<times> string) list" where
  "MessageSubTypesMapping = [(''forward_date'', ''forward'')]"

text \<open>\<^verbatim>\<open>MessageSubTypesMapping[type] || type\<close>: the empty string is falsy.\<close>

definition map_sub_type :: "string \<Rightarrow> string" where
  "map_sub_type type =
    (case map_of MessageSubTypesMapping type of
       None \<Rightarrow> type
     | Some label \<Rightarrow> if label = [] then type else label)"

section \<open>The context\<close>

record options =
  channelMode :: "bool option"
  username :: "string option"

text \<open>The fields of a \<^verbatim>\<open>TelegrafContext\<close> that its accessors and guards read; the
  invoker \<^verbatim>\<open>tg\<close> is external, and its calls are values of type \<^typ>\<open>call\<close>.
  \<^verbatim>\<open>updateType\<close> is \<^verbatim>\<open>None\<close> when it holds \<^verbatim>\<open>undefined\<close>. The update is an object,
  as its type \<^verbatim>\<open>tt.Update\<close> says; what its fields hold is any value.\<close>

record TelegrafContext =
  update :: object
  options :: options
  updateType :: "string option"
  updateSubTypes :: "string list"
  contextState :: jsval

text \<open>Line 74: \<^verbatim>\<open>UpdateTypes.find((key) => key in this.update)!\<close>. The \<^verbatim>\<open>!\<close> is erased
  by the compiler: when no key is found the field holds \<^verbatim>\<open>undefined\<close>.\<close>

definition find_update_type :: "object \<Rightarrow> string option" where
  "find_update_type upd = find (\<lambda>key. has_key upd key) UpdateTypes"

text \<open>Lines 77 to 79: \<^verbatim>\<open>MessageSubTypes.filter((key) => key in sub).map(...)\<close>.
  \<^verbatim>\<open>MessageSubTypes\<close> is not empty, so \<^verbatim>\<open>in\<close> is evaluated and throws when
  \<^verbatim>\<open>sub\<close> is not an object.\<close>

fun message_sub_types :: "jsval \<Rightarrow> js_error + string list" where
  "message_sub_types (Obj sub) =
     Inr (map map_sub_type (filter (\<lambda>key. has_key sub key) MessageSubTypes))"
| "message_sub_types v = Inl TypeError"

text \<open>The constructor. Its last statement reads every property of the prototype, getters
  included, to bind the methods; the getter \<^verbatim>\<open>state\<close> then initialises
  \<^verbatim>\<open>contextState\<close> to \<^verbatim>\<open>{}\<close>.\<close>

definition constructor :: "object \<Rightarrow> options \<Rightarrow> js_error + TelegrafContext" where
  "constructor upd opts =
    (let ut = find_update_type upd in
     if ut = Some ''message'' \<or> (channelMode opts = Some True \<and> ut = Some ''channel_post'')
     then
       (case message_sub_types (field upd (the ut)) of
          Inl e \<Rightarrow> Inl e
        | Inr subs \<Rightarrow>
            Inr \<lparr>update = upd, options = opts, updateType = ut, updateSubTypes = subs,
                 contextState = Obj []\<rparr>)
     else
       Inr \<lparr>update = upd, options = opts, updateType = ut, updateSubTypes = [],
            contextState = Obj []\<rparr>)"

subsection \<open>Accessors\<close>

definition me :: "TelegrafContext \<Rightarrow> string option" where
  "me c = username (options c)"

definition message :: "TelegrafContext \<Rightarrow> jsval" where
  "message c = field (update c) ''message''"

definition editedMessage :: "TelegrafContext \<Rightarrow> jsval" where
  "editedMessage c = field (update c) ''edited_message''"

definition inlineQuery :: "TelegrafContext \<Rightarrow> jsval" where
  "inlineQuery c = field (update c) ''inline_query''"

definition shippingQuery :: "TelegrafContext \<Rightarrow> jsval" where
  "shippingQuery c = field (update c) ''shipping_query''"

definition preCheckoutQuery :: "TelegrafContext \<Rightarrow> jsval" where
  "preCheckoutQuery c = field (update c) ''pre_checkout_query''"

definition chosenInlineResult :: "TelegrafContext \<Rightarrow> jsval" where
  "chosenInlineResult c = field (update c) ''chosen_inline_result''"

definition channelPost :: "TelegrafContext \<Rightarrow> jsval" where
  "channelPost c = field (update c) ''channel_post''"

definition editedChannelPost :: "TelegrafContext \<Rightarrow> jsval" where
  "editedChannelPost c = field (update c) ''edited_channel_post''"

definition callbackQuery :: "TelegrafContext \<Rightarrow> jsval" where
  "callbackQuery c = field (update c) ''callback_query''"

definition poll :: "TelegrafContext \<Rightarrow> jsval" where
  "poll c = field (update c) ''poll''"

definition pollAnswer :: "TelegrafContext \<Rightarrow> jsval" where
  "pollAnswer c = field (update c) ''poll_answer''"

definition chat :: "TelegrafContext \<Rightarrow> jsval" where
  "chat c =
    opt_prop
      (coalesce (message c)
        (coalesce (editedMessage c)
          (coalesce (opt_prop (callbackQuery c) ''message'')
            (coalesce (channelPost c) (editedChannelPost c)))))
      ''chat''"

definition from' :: "TelegrafContext \<Rightarrow> jsval" where
  "from' c =
    opt_prop
      (coalesce (message c)
        (coalesce (editedMessage c)
          (coalesce (callbackQuery c)
            (coalesce (inlineQuery c)
              (coalesce (channelPost c)
                (coalesce (editedChannelPost c)
                  (coalesce (shippingQuery c)
                    (coalesce (preCheckoutQuery c) (chosenInlineResult c)))))))))
      ''from''"

definition inlineMessageId :: "TelegrafContext \<Rightarrow> jsval" where
  "inlineMessageId c =
    opt_prop (coalesce (callbackQuery c) (chosenInlineResult c)) ''inline_message_id''"

definition passportData :: "TelegrafContext \<Rightarrow> jsval" where
  "passportData c = opt_prop (message c) ''passport_data''"

text \<open>The getter \<^verbatim>\<open>state\<close> is the one accessor that writes: it returns the bag and the
  context with the bag initialised.\<close>

definition state :: "TelegrafContext \<Rightarrow> jsval \<times> TelegrafContext" where
  "state c =
    (let c' = (if \<not> truthy (contextState c) then c\<lparr>contextState := Obj []\<rparr> else c)
     in (contextState c', c'))"

subsection \<open>Reading a property of the context\<close>

text \<open>The readable properties of a context: the two fields set by the constructor and
  the getters above. Reading one returns its value and the context as the read leaves
  it, so that a read that wrote to the context would show.\<close>

datatype property =
    P_updateType | P_updateSubTypes | P_me
  | P_message | P_editedMessage | P_inlineQuery | P_shippingQuery | P_preCheckoutQuery
  | P_chosenInlineResult | P_channelPost | P_editedChannelPost | P_callbackQuery
  | P_poll | P_pollAnswer
  | P_chat | P_from | P_inlineMessageId | P_passportData
  | P_state

datatype reading =
    Kind "string option"
  | Kinds "string list"
  | Username "string option"
  | Value jsval

fun read_property :: "property \<Rightarrow> TelegrafContext \<Rightarrow> reading \<times> TelegrafContext" where
  "read_property P_updateType c = (Kind (updateType c), c)"
| "read_property P_updateSubTypes c = (Kinds (updateSubTypes c), c)"
| "read_property P_me c = (Username (me c), c)"
| "read_property P_message c = (Value (message c), c)"
| "read_property P_editedMessage c = (Value (editedMessage c), c)"
| "read_property P_inlineQuery c = (Value (inlineQuery c), c)"
| "read_property P_shippingQuery c = (Value (shippingQuery c), c)"
| "read_property P_preCheckoutQuery c = (Value (preCheckoutQuery c), c)"
| "read_property P_chosenInlineResult c = (Value (chosenInlineResult c), c)"
| "read_property P_channelPost c = (Value (channelPost c), c)"
| "read_property P_editedChannelPost c = (Value (editedChannelPost c), c)"
| "read_property P_callbackQuery c = (Value (callbackQuery c), c)"
| "read_property P_poll c = (Value (poll c), c)"
| "read_property P_pollAnswer c = (Value (pollAnswer c), c)"
| "read_property P_chat c = (Value (chat c), c)"
| "read_property P_from c = (Value (from' c), c)"
| "read_property P_inlineMessageId c = (Value (inlineMessageId c), c)"
| "read_property P_passportData c = (Value (passportData c), c)"
| "read_property P_state c = (Value (fst (state c)), snd (state c))"

section \<open>The guard\<close>

text \<open>\<^verbatim>\<open>`${this.updateSubTypes}`\<close>: the elements of the array joined by commas.\<close>

fun join_comma :: "string list \<Rightarrow> string" where
  "join_comma [] = []"
| "join_comma [x] = x"
| "join_comma (x # y # ys) = x @ '','' @ join_comma (y # ys)"

text \<open>\<^verbatim>\<open>`${this.updateType}`\<close>.\<close>

definition update_type_string :: "TelegrafContext \<Rightarrow> string" where
  "update_type_string c = (case updateType c of None \<Rightarrow> ''undefined'' | Some t \<Rightarrow> t)"

text \<open>The message of line 200; \<^term>\<open>CHR 0x22\<close> is the double quote.\<close>

definition unavailable :: "TelegrafContext \<Rightarrow> string \<Rightarrow> string" where
  "unavailable c method =
    ''Telegraf: '' @ [CHR 0x22] @ method @ [CHR 0x22] @ '' isn't available for '' @ [CHR 0x22]
      @ update_type_string c @ ''::'' @ join_comma (updateSubTypes c) @ [CHR 0x22]"

definition assert :: "TelegrafContext \<Rightarrow> jsval \<Rightarrow> string \<Rightarrow> js_error + unit" where
  "assert c v method = (if v = Undefined then Inl (Error (unavailable c method)) else Inr ())"

section \<open>Dispatch methods\<close>

text \<open>A method returns what the invoker returns, so its outcome is the error it throws or
  the one call of the invoker it ends with. Every argument of that call is evaluated
  before the call is made.\<close>

subsection \<open>The edit family\<close>

definition editMessageText :: "TelegrafContext \<Rightarrow> jsval \<Rightarrow> jsval \<Rightarrow> js_error + call" where
  "editMessageText c text extra =
    (case assert c (coalesce (callbackQuery c) (inlineMessageId c)) ''editMessageText'' of
       Inl e \<Rightarrow> Inl e
     | Inr _ \<Rightarrow>
         Inr (Call ''editMessageText''
           [opt_prop (chat c) ''id'',
            opt_prop (opt_prop (callbackQuery c) ''message'') ''message_id'',
            inlineMessageId c, text, extra]))"

definition editMessageCaption :: "TelegrafContext \<Rightarrow> jsval \<Rightarrow> jsval \<Rightarrow> js_error + call" where
  "editMessageCaption c caption extra =
    (case assert c (coalesce (callbackQuery c) (inlineMessageId c)) ''editMessageCaption'' of
       Inl e \<Rightarrow> Inl e
     | Inr _ \<Rightarrow>
         Inr (Call ''editMessageCaption''
           [opt_prop (chat c) ''id'',
            opt_prop (opt_prop (callbackQuery c) ''message'') ''message_id'',
            inlineMessageId c, caption, extra]))"

definition editMessageMedia :: "TelegrafContext \<Rightarrow> jsval \<Rightarrow> jsval \<Rightarrow> js_error + call" where
  "editMessageMedia c media extra =
    (case assert c (coalesce (callbackQuery c) (inlineMessageId c)) ''editMessageMedia'' of
       Inl e \<Rightarrow> Inl e
     | Inr _ \<Rightarrow>
         Inr (Call ''editMessageMedia''
           [opt_prop (chat c) ''id'',
            opt_prop (opt_prop (callbackQuery c) ''message'') ''message_id'',
            inlineMessageId c, media, extra]))"

definition editMessageReplyMarkup :: "TelegrafContext \<Rightarrow> jsval \<Rightarrow> js_error + call" where
  "editMessageReplyMarkup c markup =
    (case assert c (coalesce (callbackQuery c) (inlineMessageId c)) ''editMessageReplyMarkup'' of
       Inl e \<Rightarrow> Inl e
     | Inr _ \<Rightarrow>
         Inr (Call ''editMessageReplyMarkup''
           [opt_prop (chat c) ''id'',
            opt_prop (opt_prop (callbackQuery c) ''message'') ''message_id'',
            inlineMessageId c, markup]))"

definition editMessageLiveLocation ::
  "TelegrafContext \<Rightarrow> jsval \<Rightarrow> jsval \<Rightarrow> jsval \<Rightarrow> js_error + call" where
  "editMessageLiveLocation c latitude longitude markup =
    (case assert c (coalesce (callbackQuery c) (inlineMessageId c)) ''editMessageLiveLocation'' of
       Inl e \<Rightarrow> Inl e
     | Inr _ \<Rightarrow>
         Inr (Call ''editMessageLiveLocation''
           [latitude, longitude,
            opt_prop (chat c) ''id'',
            opt_prop (opt_prop (callbackQuery c) ''message'') ''message_id'',
            inlineMessageId c, markup]))"

definition stopMessageLiveLocation :: "TelegrafContext \<Rightarrow> jsval \<Rightarrow> js_error + call" where
  "stopMessageLiveLocation c markup =
    (case assert c (coalesce (callbackQuery c) (inlineMessageId c)) ''stopMessageLiveLocation'' of
       Inl e \<Rightarrow> Inl e
     | Inr _ \<Rightarrow>
         Inr (Call ''stopMessageLiveLocation''
           [opt_prop (chat c) ''id'',
            opt_prop (opt_prop (callbackQuery c) ''message'') ''message_id'',
            inlineMessageId c, markup]))"

subsection \<open>Chat-scoped methods\<close>

text \<open>The body shared by the chat-scoped methods that take rest arguments:
  \<^verbatim>\<open>this.assert(this.chat, method); return this.telegram.operation(this.chat.id, ...args)\<close>.\<close>

definition chat_scoped ::
  "string \<Rightarrow> string \<Rightarrow> TelegrafContext \<Rightarrow> jsval list \<Rightarrow> js_error + call" where
  "chat_scoped method operation c args =
    (case assert c (chat c) method of
       Inl e \<Rightarrow> Inl e
     | Inr _ \<Rightarrow>
         (case get_prop (chat c) ''id'' of
            Inl e \<Rightarrow> Inl e
          | Inr chat_id \<Rightarrow> Inr (Call operation (chat_id # args))))"

definition reply :: "TelegrafContext \<Rightarrow> jsval list \<Rightarrow> js_error + call" where
  "reply c args = chat_scoped ''reply'' ''sendMessage'' c args"

text \<open>The methods of that shape, each with the operation of the invoker it delegates to,
  in the order of the source.\<close>

definition chat_scoped_methods :: "(string \<times> string) list" where
  "chat_scoped_methods =
    [(''reply'', ''sendMessage''),
     (''getChat'', ''getChat''),
     (''exportChatInviteLink'', ''exportChatInviteLink''),
     (''kickChatMember'', ''kickChatMember''),
     (''unbanChatMember'', ''unbanChatMember''),
     (''restrictChatMember'', ''restrictChatMember''),
     (''promoteChatMember'', ''promoteChatMember''),
     (''setChatAdministratorCustomTitle'', ''setChatAdministratorCustomTitle''),
     (''setChatPhoto'', ''setChatPhoto''),
     (''deleteChatPhoto'', ''deleteChatPhoto''),
     (''setChatTitle'', ''setChatTitle''),
     (''setChatDescription'', ''setChatDescription''),
     (''pinChatMessage'', ''pinChatMessage''),
     (''unpinChatMessage'', ''unpinChatMessage''),
     (''leaveChat'', ''leaveChat''),
     (''setChatPermissions'', ''setChatPermissions''),
     (''getChatAdministrators'', ''getChatAdministrators''),
     (''getChatMember'', ''getChatMember''),
     (''getChatMembersCount'', ''getChatMembersCount''),
     (''replyWithPhoto'', ''sendPhoto''),
     (''replyWithMediaGroup'', ''sendMediaGroup''),
     (''replyWithAudio'', ''sendAudio''),
     (''replyWithDice'', ''sendDice''),
     (''replyWithDocument'', ''sendDocument''),
     (''replyWithSticker'', ''sendSticker''),
     (''replyWithVideo'', ''sendVideo''),
     (''replyWithAnimation'', ''sendAnimation''),
     (''replyWithVideoNote'', ''sendVideoNote''),
     (''replyWithInvoice'', ''sendInvoice''),
     (''replyWithGame'', ''sendGame''),
     (''replyWithVoice'', ''sendVoice''),
     (''replyWithPoll'', ''sendPoll''),
     (''replyWithQuiz'', ''sendQuiz''),
     (''stopPoll'', ''stopPoll''),
     (''replyWithChatAction'', ''sendChatAction''),
     (''replyWithLocation'', ''sendLocation''),
     (''replyWithVenue'', ''sendVenue''),
     (''replyWithContact'', ''sendContact'')]"

definition setChatStickerSet :: "TelegrafContext \<Rightarrow> jsval \<Rightarrow> js_error + call" where
  "setChatStickerSet c setName =
    (case assert c (chat c) ''setChatStickerSet'' of
       Inl e \<Rightarrow> Inl e
     | Inr _ \<Rightarrow>
         (case get_prop (chat c) ''id'' of
            Inl e \<Rightarrow> Inl e
          | Inr chat_id \<Rightarrow> Inr (Call ''setChatStickerSet'' [chat_id, setName])))"

definition deleteChatStickerSet :: "TelegrafContext \<Rightarrow> js_error + call" where
  "deleteChatStickerSet c =
    (case assert c (chat c) ''deleteChatStickerSet'' of
       Inl e \<Rightarrow> Inl e
     | Inr _ \<Rightarrow>
         (case get_prop (chat c) ''id'' of
            Inl e \<Rightarrow> Inl e
          | Inr chat_id \<Rightarrow> Inr (Call ''deleteChatStickerSet'' [chat_id])))"

text \<open>\<^verbatim>\<open>{ ...literal, ...extra }\<close> for an \<^verbatim>\<open>extra\<close> that is an object or, when \<^verbatim>\<open>None\<close>,
  \<^verbatim>\<open>undefined\<close>, as its type \<^verbatim>\<open>tt.ExtraEditMessage | undefined\<close> says: a key of the
  literal keeps its place and takes the value \<^verbatim>\<open>extra\<close> has for it, if any; the other
  keys of \<^verbatim>\<open>extra\<close> follow in their order (array indices, which JavaScript lists
  first, are no keys of \<^verbatim>\<open>tt.ExtraEditMessage\<close>).\<close>

definition spread_onto :: "object \<Rightarrow> object option \<Rightarrow> object" where
  "spread_onto literal extra =
    (case extra of
       None \<Rightarrow> literal
     | Some fs \<Rightarrow>
         map (\<lambda>(key, v). (key, if has_key fs key then field fs key else v)) literal
         @ filter (\<lambda>(key, v). \<not> has_key literal key) fs)"

text \<open>The three methods that call \<^verbatim>\<open>this.reply\<close> with a formatting option.\<close>

definition replyWithMarkdown ::
  "TelegrafContext \<Rightarrow> jsval \<Rightarrow> object option \<Rightarrow> js_error + call" where
  "replyWithMarkdown c markdown extra =
    reply c [markdown, Obj (spread_onto [(''parse_mode'', Str ''Markdown'')] extra)]"

definition replyWithMarkdownV2 ::
  "TelegrafContext \<Rightarrow> jsval \<Rightarrow> object option \<Rightarrow> js_error + call" where
  "replyWithMarkdownV2 c markdown extra =
    reply c [markdown, Obj (spread_onto [(''parse_mode'', Str ''MarkdownV2'')] extra)]"

definition replyWithHTML ::
  "TelegrafContext \<Rightarrow> jsval \<Rightarrow> object option \<Rightarrow> js_error + call" where
  "replyWithHTML c html extra =
    reply c [html, Obj (spread_onto [(''parse_mode'', Str ''HTML'')] extra)]"

text \<open>\<^verbatim>\<open>deleteMessage(messageId?)\<close>: an argument that is not supplied is
  \<^verbatim>\<open>undefined\<close>.\<close>

definition deleteMessage :: "TelegrafContext \<Rightarrow> jsval \<Rightarrow> js_error + call" where
  "deleteMessage c messageId =
    (case assert c (chat c) ''deleteMessage'' of
       Inl e \<Rightarrow> Inl e
     | Inr _ \<Rightarrow>
         if messageId \<noteq> Undefined then
           (case get_prop (chat c) ''id'' of
              Inl e \<Rightarrow> Inl e
            | Inr chat_id \<Rightarrow> Inr (Call ''deleteMessage'' [chat_id, messageId]))
         else
           (case assert c (message c) ''deleteMessage'' of
              Inl e \<Rightarrow> Inl e
            | Inr _ \<Rightarrow>
                (case get_prop (chat c) ''id'' of
                   Inl e \<Rightarrow> Inl e
                 | Inr chat_id \<Rightarrow>
                     (case get_prop (message c) ''message_id'' of
                        Inl e \<Rightarrow> Inl e
                      | Inr message_id \<Rightarrow> Inr (Call ''deleteMessage'' [chat_id, message_id])))))"

section \<open>Example updates\<close>

text \<open>The options of a context constructed without options (\<^verbatim>\<open>{}\<close>).\<close>

definition no_options :: options where
  "no_options = \<lparr>channelMode = None, username = None\<rparr>"

text \<open>\<^verbatim>\<open>{ message: { message_id: 10, chat: { id: 5 }, from: { id: 7 }, text: "hi" } }\<close>\<close>

definition message_update :: object where
  "message_update =
    [(''message'',
      Obj [(''message_id'', Num 10), (''chat'', Obj [(''id'', Num 5)]),
           (''from'', Obj [(''id'', Num 7)]), (''text'', Str ''hi'')])]"

definition message_context :: TelegrafContext where
  "message_context =
    \<lparr>update = message_update, options = no_options, updateType = Some ''message'',
     updateSubTypes = [''text''], contextState = Obj []\<rparr>"

text \<open>A callback query with the message it was sent from:
  \<^verbatim>\<open>{ callback_query: { id: "1", from: { id: 7 }, message: { message_id: 11, chat: { id: 5 } } } }\<close>\<close>

definition callback_update :: object where
  "callback_update =
    [(''callback_query'',
      Obj [(''id'', Str ''1''), (''from'', Obj [(''id'', Num 7)]),
           (''message'', Obj [(''message_id'', Num 11), (''chat'', Obj [(''id'', Num 5)])])])]"

definition callback_context :: TelegrafContext where
  "callback_context =
    \<lparr>update = callback_update, options = no_options, updateType = Some ''callback_query'',
     updateSubTypes = [], contextState = Obj []\<rparr>"

text \<open>A callback query with neither a message nor an inline message id:
  \<^verbatim>\<open>{ callback_query: { id: "1", from: { id: 7 } } }\<close>\<close>

definition bare_callback_update :: object where
  "bare_callback_update =
    [(''callback_query'', Obj [(''id'', Str ''1''), (''from'', Obj [(''id'', Num 7)])])]"

definition bare_callback_context :: TelegrafContext where
  "bare_callback_context =
    \<lparr>update = bare_callback_update, options = no_options,
     updateType = Some ''callback_query'', updateSubTypes = [], contextState = Obj []\<rparr>"

text \<open>An update with two primary-kind fields:
  \<^verbatim>\<open>{ message: { message_id: 10, chat: { id: 5 }, from: { id: 7 } },
     callback_query: { id: "1", from: { id: 8 } } }\<close>\<close>

definition message_and_callback_update :: object where
  "message_and_callback_update =
    [(''message'',
      Obj [(''message_id'', Num 10), (''chat'', Obj [(''id'', Num 5)]),
           (''from'', Obj [(''id'', Num 7)])]),
     (''callback_query'', Obj [(''id'', Str ''1''), (''from'', Obj [(''id'', Num 8)])])]"

definition message_and_callback_context :: TelegrafContext where
  "message_and_callback_context =
    \<lparr>update = message_and_callback_update, options = no_options,
     updateType = Some ''callback_query'', updateSubTypes = [], contextState = Obj []\<rparr>"

text \<open>\<^verbatim>\<open>{ inline_query: { id: "q", from: { id: 7 }, query: "cats" } }\<close>\<close>

definition inline_query_update :: object where
  "inline_query_update =
    [(''inline_query'',
      Obj [(''id'', Str ''q''), (''from'', Obj [(''id'', Num 7)]), (''query'', Str ''cats'')])]"

definition inline_query_context :: TelegrafContext where
  "inline_query_context =
    \<lparr>update = inline_query_update, options = no_options, updateType = Some ''inline_query'',
     updateSubTypes = [], contextState = Obj []\<rparr>"

text \<open>A message without a chat:
  \<^verbatim>\<open>{ message: { message_id: 1, text: "x", forward_date: 5 } }\<close>\<close>

definition no_chat_update :: object where
  "no_chat_update =
    [(''message'',
      Obj [(''message_id'', Num 1), (''text'', Str ''x''), (''forward_date'', Num 5)])]"

definition no_chat_context :: TelegrafContext where
  "no_chat_context =
    \<lparr>update = no_chat_update, options = no_options, updateType = Some ''message'',
     updateSubTypes = [''text'', ''forward''], contextState = Obj []\<rparr>"

text \<open>A message whose chat is \<^verbatim>\<open>null\<close>:
  \<^verbatim>\<open>{ message: { message_id: 1, chat: null, text: "x" } }\<close>\<close>

definition null_chat_update :: object where
  "null_chat_update =
    [(''message'', Obj [(''message_id'', Num 1), (''chat'', Null), (''text'', Str ''x'')])]"

definition null_chat_context :: TelegrafContext where
  "null_chat_context =
    \<lparr>update = null_chat_update, options = no_options, updateType = Some ''message'',
     updateSubTypes = [''text''], contextState = Obj []\<rparr>"

text \<open>An edited message beside a message that is \<^verbatim>\<open>null\<close>:
  \<^verbatim>\<open>{ message: null, edited_message: { message_id: 2, chat: { id: 9 } } }\<close>\<close>

definition null_message_update :: object where
  "null_message_update =
    [(''message'', Null),
     (''edited_message'', Obj [(''message_id'', Num 2), (''chat'', Obj [(''id'', Num 9)])])]"

definition null_message_context :: TelegrafContext where
  "null_message_context =
    \<lparr>update = null_message_update, options = no_options,
     updateType = Some ''edited_message'', updateSubTypes = [], contextState = Obj []\<rparr>"

section \<open>Classification\<close>

lemma find_update_type_none:
  "\<forall>key\<in>set UpdateTypes. \<not> has_key upd key \<Longrightarrow> find_update_type upd = None"
  by (simp add: find_update_type_def find_None_iff)

lemma find_first_index:
  "i < length xs \<Longrightarrow> P (xs ! i) \<Longrightarrow> \<forall>l<i. \<not> P (xs ! l) \<Longrightarrow> find P xs = Some (xs ! i)"
proof (induction xs arbitrary: i)
  case Nil
  then show ?case by simp
next
  case (Cons x xs)
  show ?case
  proof (cases i)
    case 0
    with Cons.prems show ?thesis by simp
  next
    case (Suc n)
    with Cons.prems have "\<not> P x" by auto
    moreover have "find P xs = Some (xs ! n)"
      using Cons.prems Suc by (intro Cons.IH) auto
    ultimately show ?thesis using Suc by simp
  qed
qed

lemma find_update_type_first:
  "i < length UpdateTypes \<Longrightarrow> has_key upd (UpdateTypes ! i) \<Longrightarrow>
   \<forall>l<i. \<not> has_key upd (UpdateTypes ! l) \<Longrightarrow> find_update_type upd = Some (UpdateTypes ! i)"
  unfolding find_update_type_def by (rule find_first_index)

lemma distinct_UpdateTypes: "distinct UpdateTypes"
  by (simp add: UpdateTypes_def)

lemma find_update_type_only:
  assumes "k \<in> set UpdateTypes" "has_key upd k"
    and "\<forall>k'\<in>set UpdateTypes. k' \<noteq> k \<longrightarrow> \<not> has_key upd k'"
  shows "find_update_type upd = Some k"
proof -
  from assms(1) obtain i where i: "i < length UpdateTypes" "UpdateTypes ! i = k"
    by (auto simp: in_set_conv_nth)
  have "\<forall>l<i. \<not> has_key upd (UpdateTypes ! l)"
  proof (intro allI impI)
    fix l assume l: "l < i"
    with i have "UpdateTypes ! l \<noteq> k"
      using distinct_UpdateTypes by (auto simp: nth_eq_iff_index_eq)
    moreover have "UpdateTypes ! l \<in> set UpdateTypes" using l i by simp
    ultimately show "\<not> has_key upd (UpdateTypes ! l)" using assms(3) by blast
  qed
  with i assms(2) show ?thesis using find_update_type_first [of i upd] by simp
qed

lemma find_update_type_earlier:
  assumes "i < j" "j < length UpdateTypes"
    and "has_key upd (UpdateTypes ! i)"
    and "\<forall>k'\<in>set UpdateTypes.
           k' \<noteq> UpdateTypes ! i \<and> k' \<noteq> UpdateTypes ! j \<longrightarrow> \<not> has_key upd k'"
  shows "find_update_type upd = Some (UpdateTypes ! i)"
proof -
  have "\<forall>l<i. \<not> has_key upd (UpdateTypes ! l)"
  proof (intro allI impI)
    fix l assume l: "l < i"
    with assms(1,2)
    have "UpdateTypes ! l \<noteq> UpdateTypes ! i" "UpdateTypes ! l \<noteq> UpdateTypes ! j"
      using distinct_UpdateTypes by (auto simp: nth_eq_iff_index_eq)
    moreover have "UpdateTypes ! l \<in> set UpdateTypes" using l assms(1,2) by simp
    ultimately show "\<not> has_key upd (UpdateTypes ! l)" using assms(4) by blast
  qed
  with assms show ?thesis using find_update_type_first [of i upd] by simp
qed

lemma constructor_update_type:
  "constructor upd opts = Inr c \<Longrightarrow>
   updateType c = find_update_type upd \<and> update c = upd \<and> options c = opts"
  by (auto simp: constructor_def Let_def split: if_splits sum.splits)

text \<open>
  Claim C1 reads: for every update in which no primary-kind field is present, the
  constructor fails with a hard error. The constructor has no such check: the \<^verbatim>\<open>!\<close>
  after \<^verbatim>\<open>find\<close> exists at compile time only. On the update \<^verbatim>\<open>{ update_id: 1 }\<close> it
  returns a context whose \<^verbatim>\<open>updateType\<close> is \<^verbatim>\<open>undefined\<close>.
\<close>

theorem constructor_no_kind_counterexample:
  "list_all (\<lambda>key. \<not> has_key [(''update_id'', Num 1)] key) UpdateTypes \<and>
   constructor [(''update_id'', Num 1)] \<lparr>channelMode = None, username = None\<rparr> =
     Inr \<lparr>update = [(''update_id'', Num 1)],
          options = \<lparr>channelMode = None, username = None\<rparr>,
          updateType = None, updateSubTypes = [], contextState = Obj []\<rparr>"
  by (simp add: constructor_def find_update_type_def UpdateTypes_def has_key_def)

text \<open>
  Claim C1, amended: for every update in which no primary-kind field is present, the
  constructor does not fail; it returns a context whose primary kind is absent
  (\<^verbatim>\<open>undefined\<close>) and whose list of secondary kinds is empty.
\<close>

theorem constructor_no_kind:
  "\<forall>key\<in>set UpdateTypes. \<not> has_key upd key \<Longrightarrow>
   constructor upd opts =
     Inr \<lparr>update = upd, options = opts, updateType = None, updateSubTypes = [],
          contextState = Obj []\<rparr>"
  by (simp add: constructor_def find_update_type_none)

theorem constructor_no_kind_witness:
  "list_all (\<lambda>key. \<not> has_key [(''update_id'', Num 1)] key) UpdateTypes \<and>
   constructor [(''update_id'', Num 1)] \<lparr>channelMode = Some True, username = None\<rparr> =
     Inr \<lparr>update = [(''update_id'', Num 1)],
          options = \<lparr>channelMode = Some True, username = None\<rparr>,
          updateType = None, updateSubTypes = [], contextState = Obj []\<rparr>"
proof -
  have h: "\<forall>key\<in>set UpdateTypes. \<not> has_key [(''update_id'', Num 1)] key"
    by (simp add: UpdateTypes_def has_key_def)
  show ?thesis
    using h constructor_no_kind [OF h, of "\<lparr>channelMode = Some True, username = None\<rparr>"]
    by (simp add: list_all_iff)
qed

lemma constructor_returns:
  "find_update_type upd = Some k \<Longrightarrow> field upd k = Obj sub \<Longrightarrow> \<exists>c. constructor upd opts = Inr c"
  by (simp add: constructor_def Let_def)

text \<open>
  Claim C5: for every update with exactly one primary-kind field, line 74 finds that
  kind, a constructed context has it as \<^verbatim>\<open>updateType\<close>, and the context is constructed
  when that field holds an object; for an update with the fields of exactly two primary
  kinds, the same holds of the kind declared earlier in \<^verbatim>\<open>UpdateTypes\<close>.
\<close>

theorem update_type_first_declared:
  "(k \<in> set UpdateTypes \<and> has_key upd k \<and>
      (\<forall>k'\<in>set UpdateTypes. k' \<noteq> k \<longrightarrow> \<not> has_key upd k')
    \<longrightarrow> find_update_type upd = Some k \<and>
        (\<forall>c. constructor upd opts = Inr c \<longrightarrow> updateType c = Some k) \<and>
        (\<forall>sub. field upd k = Obj sub \<longrightarrow> (\<exists>c. constructor upd opts = Inr c)))
   \<and>
   (i < j \<and> j < length UpdateTypes \<and>
      has_key upd (UpdateTypes ! i) \<and> has_key upd (UpdateTypes ! j) \<and>
      (\<forall>k'\<in>set UpdateTypes.
         k' \<noteq> UpdateTypes ! i \<and> k' \<noteq> UpdateTypes ! j \<longrightarrow> \<not> has_key upd k')
    \<longrightarrow> find_update_type upd = Some (UpdateTypes ! i) \<and>
        (\<forall>c. constructor upd opts = Inr c \<longrightarrow> updateType c = Some (UpdateTypes ! i)) \<and>
        (\<forall>sub. field upd (UpdateTypes ! i) = Obj sub \<longrightarrow> (\<exists>c. constructor upd opts = Inr c)))"
proof -
  have "find_update_type upd = Some kind \<Longrightarrow>
      (\<forall>c. constructor upd opts = Inr c \<longrightarrow> updateType c = Some kind) \<and>
      (\<forall>sub. field upd kind = Obj sub \<longrightarrow> (\<exists>c. constructor upd opts = Inr c))" for kind
    using constructor_update_type [of upd opts] constructor_returns [of upd kind _ opts]
    by auto
  then show ?thesis
    using find_update_type_only [of k upd] find_update_type_earlier [of i j upd]
    by blast
qed

theorem update_type_first_declared_witness:
  "list_all
     (\<lambda>k'. has_key [(''update_id'', Num 1), (''inline_query'', Obj [(''id'', Str ''q'')])] k'
            = (k' = ''inline_query''))
     UpdateTypes \<and>
   find_update_type [(''update_id'', Num 1), (''inline_query'', Obj [(''id'', Str ''q'')])]
     = Some ''inline_query'' \<and>
   list_all
     (\<lambda>k'. has_key [(''message'', Obj []), (''callback_query'', Obj [])] k'
            = (k' = ''callback_query'' \<or> k' = ''message''))
     UpdateTypes \<and>
   UpdateTypes ! 0 = ''callback_query'' \<and> UpdateTypes ! 8 = ''message'' \<and>
   find_update_type [(''message'', Obj []), (''callback_query'', Obj [])]
     = Some ''callback_query''"
proof -
  let ?u = "[(''update_id'', Num 1), (''inline_query'', Obj [(''id'', Str ''q'')])]"
  let ?v = "[(''message'', Obj []), (''callback_query'', Obj [])]"
  let ?o = "\<lparr>channelMode = None, username = None\<rparr>"
  have l1: "list_all (\<lambda>k'. has_key ?u k' = (k' = ''inline_query'')) UpdateTypes"
    by (simp add: UpdateTypes_def has_key_def)
  have l2: "list_all (\<lambda>k'. has_key ?v k' = (k' = ''callback_query'' \<or> k' = ''message''))
              UpdateTypes"
    by (simp add: UpdateTypes_def has_key_def)
  have n: "UpdateTypes ! 0 = ''callback_query'' \<and> UpdateTypes ! 8 = ''message''"
    by (simp add: UpdateTypes_def)
  have h1: "''inline_query'' \<in> set UpdateTypes \<and> has_key ?u ''inline_query'' \<and>
    (\<forall>k'\<in>set UpdateTypes. k' \<noteq> ''inline_query'' \<longrightarrow> \<not> has_key ?u k')"
    by (simp add: UpdateTypes_def has_key_def)
  have h2: "(0::nat) < 8 \<and> 8 < length UpdateTypes \<and>
    has_key ?v (UpdateTypes ! 0) \<and> has_key ?v (UpdateTypes ! 8) \<and>
    (\<forall>k'\<in>set UpdateTypes.
       k' \<noteq> UpdateTypes ! 0 \<and> k' \<noteq> UpdateTypes ! 8 \<longrightarrow> \<not> has_key ?v k')"
    by (simp add: UpdateTypes_def has_key_def)
  from h1 have r1: "find_update_type ?u = Some ''inline_query''"
    using update_type_first_declared [of "''inline_query''" ?u ?o 0 0] by blast
  from h2 have "find_update_type ?v = Some (UpdateTypes ! 0)"
    using update_type_first_declared [of "''x''" ?v ?o 0 8] by blast
  with n have r2: "find_update_type ?v = Some ''callback_query''" by simp
  from l1 l2 n r1 r2 show ?thesis by blast
qed

section \<open>Secondary kinds\<close>

lemma map_sub_type_rename:
  "map_sub_type key = (if key = ''forward_date'' then ''forward'' else key)"
  by (simp add: map_sub_type_def MessageSubTypesMapping_def)

text \<open>
  Claim C6: when the primary kind is \<^verbatim>\<open>message\<close>, or \<^verbatim>\<open>channel_post\<close> with
  \<^verbatim>\<open>channelMode\<close> enabled, and the field of that kind holds an object, the constructor
  returns a context whose \<^verbatim>\<open>updateSubTypes\<close> are exactly the entries of
  \<^verbatim>\<open>MessageSubTypes\<close> that are keys of that object, in the order of
  \<^verbatim>\<open>MessageSubTypes\<close>, with \<^verbatim>\<open>forward_date\<close> renamed to \<^verbatim>\<open>forward\<close>; for every
  other primary kind, an absent one included, and for \<^verbatim>\<open>channel_post\<close> without
  \<^verbatim>\<open>channelMode\<close>, the constructor returns a context whose \<^verbatim>\<open>updateSubTypes\<close> are
  empty.
\<close>

theorem update_sub_types:
  "(find_update_type upd = Some k \<and>
      (k = ''message'' \<or> (k = ''channel_post'' \<and> channelMode opts = Some True)) \<and>
      field upd k = Obj sub
    \<longrightarrow> (\<exists>c. constructor upd opts = Inr c \<and> updateType c = Some k \<and>
          updateSubTypes c =
            map (\<lambda>key. if key = ''forward_date'' then ''forward'' else key)
              (filter (\<lambda>key. has_key sub key) MessageSubTypes)))
   \<and>
   (find_update_type upd \<noteq> Some ''message'' \<and>
      \<not> (find_update_type upd = Some ''channel_post'' \<and> channelMode opts = Some True)
    \<longrightarrow> (\<exists>c. constructor upd opts = Inr c \<and> updateType c = find_update_type upd \<and>
          updateSubTypes c = []))"
  by (auto simp: constructor_def Let_def map_sub_type_rename)

theorem update_sub_types_witness:
  "find_update_type
     [(''update_id'', Num 1),
      (''message'', Obj [(''message_id'', Num 10), (''forward_date'', Num 1600000000),
                         (''text'', Str ''hi'')])]
     = Some ''message'' \<and>
   (\<exists>c. constructor
          [(''update_id'', Num 1),
           (''message'', Obj [(''message_id'', Num 10), (''forward_date'', Num 1600000000),
                              (''text'', Str ''hi'')])]
          \<lparr>channelMode = None, username = None\<rparr> = Inr c \<and>
        updateType c = Some ''message'' \<and> updateSubTypes c = [''text'', ''forward'']) \<and>
   find_update_type [(''channel_post'', Obj [(''text'', Str ''hi'')])] = Some ''channel_post'' \<and>
   (\<exists>c. constructor [(''channel_post'', Obj [(''text'', Str ''hi'')])]
          \<lparr>channelMode = Some False, username = None\<rparr> = Inr c \<and>
        updateType c = Some ''channel_post'' \<and> updateSubTypes c = [])"
proof -
  let ?m = "[(''message_id'', Num 10), (''forward_date'', Num 1600000000), (''text'', Str ''hi'')]"
  let ?u = "[(''update_id'', Num 1), (''message'', Obj ?m)]"
  let ?v = "[(''channel_post'', Obj [(''text'', Str ''hi'')])]"
  have k1: "find_update_type ?u = Some ''message''"
    by (simp add: find_update_type_def UpdateTypes_def has_key_def)
  have f1: "field ?u ''message'' = Obj ?m"
    by (simp add: field_def)
  have s1: "map (\<lambda>key. if key = ''forward_date'' then ''forward'' else key)
              (filter (\<lambda>key. has_key ?m key) MessageSubTypes) = [''text'', ''forward'']"
    by (simp add: MessageSubTypes_def has_key_def)
  have k2: "find_update_type ?v = Some ''channel_post''"
    by (simp add: find_update_type_def UpdateTypes_def has_key_def)
  have r1: "\<exists>c. constructor ?u \<lparr>channelMode = None, username = None\<rparr> = Inr c \<and>
        updateType c = Some ''message'' \<and> updateSubTypes c = [''text'', ''forward'']"
    using update_sub_types [of ?u "''message''" "\<lparr>channelMode = None, username = None\<rparr>" ?m]
      k1 f1 s1 by simp
  have r2: "\<exists>c. constructor ?v \<lparr>channelMode = Some False, username = None\<rparr> = Inr c \<and>
        updateType c = Some ''channel_post'' \<and> updateSubTypes c = []"
    using update_sub_types [of ?v "''x''" "\<lparr>channelMode = Some False, username = None\<rparr>" "[]"]
      k2 by simp
  from k1 r1 k2 r2 show ?thesis by blast
qed

section \<open>Resolution chains\<close>

lemma opt_prop_nullish: "nullish v \<Longrightarrow> opt_prop v key = Undefined"
  by (auto simp: nullish_def)

lemma nullish_Obj: "\<not> nullish (Obj fs)"
  by (simp add: nullish_def)

lemma opt_prop_coalesce:
  "opt_prop (coalesce a b) key = (if nullish a then opt_prop b key else opt_prop a key)"
  by (simp add: coalesce_def)

lemma chat_chain:
  "chat c =
     (case find (\<lambda>v. \<not> nullish v)
        [field (update c) ''message'',
         field (update c) ''edited_message'',
         opt_prop (field (update c) ''callback_query'') ''message'',
         field (update c) ''channel_post'',
         field (update c) ''edited_channel_post'']
      of None \<Rightarrow> Undefined
       | Some candidate \<Rightarrow> opt_prop candidate ''chat'')"
  unfolding chat_def message_def editedMessage_def callbackQuery_def channelPost_def
      editedChannelPost_def opt_prop_coalesce
  by (simp add: opt_prop_nullish)

lemma from_chain:
  "from' c =
     (case find (\<lambda>v. \<not> nullish v)
        [field (update c) ''message'',
         field (update c) ''edited_message'',
         field (update c) ''callback_query'',
         field (update c) ''inline_query'',
         field (update c) ''channel_post'',
         field (update c) ''edited_channel_post'',
         field (update c) ''shipping_query'',
         field (update c) ''pre_checkout_query'',
         field (update c) ''chosen_inline_result'']
      of None \<Rightarrow> Undefined
       | Some candidate \<Rightarrow> opt_prop candidate ''from'')"
  unfolding from'_def message_def editedMessage_def callbackQuery_def channelPost_def
      editedChannelPost_def inlineQuery_def shippingQuery_def preCheckoutQuery_def
      chosenInlineResult_def opt_prop_coalesce
  by (simp add: opt_prop_nullish)

text \<open>
  Claim C7: the resolved chat is the \<^verbatim>\<open>chat\<close> field of the first candidate that is
  neither \<^verbatim>\<open>undefined\<close> nor \<^verbatim>\<open>null\<close> among the message, the edited message, the
  message of the callback query, the channel post and the edited channel post, probed
  in that order, and is \<^verbatim>\<open>undefined\<close> when there is none. In particular, for a
  callback-query update whose query carries a message, the resolved chat is the chat of
  that message.
\<close>

theorem chat_first_present:
  "chat c =
     (case find (\<lambda>v. \<not> nullish v)
        [field (update c) ''message'',
         field (update c) ''edited_message'',
         opt_prop (field (update c) ''callback_query'') ''message'',
         field (update c) ''channel_post'',
         field (update c) ''edited_channel_post'']
      of None \<Rightarrow> Undefined
       | Some candidate \<Rightarrow> opt_prop candidate ''chat'')
   \<and>
   (nullish (field (update c) ''message'') \<and> nullish (field (update c) ''edited_message'') \<and>
    field (update c) ''callback_query'' = Obj query \<and> field query ''message'' = Obj msg
    \<longrightarrow> chat c = field msg ''chat'')"
proof -
  have "chat c = field msg ''chat''"
    if "nullish (field (update c) ''message'')" "nullish (field (update c) ''edited_message'')"
      "field (update c) ''callback_query'' = Obj query" "field query ''message'' = Obj msg"
    unfolding chat_chain using that by (simp add: nullish_Obj)
  then show ?thesis using chat_chain [of c] by blast
qed

theorem chat_first_present_witness:
  "nullish (field (update callback_context) ''message'') \<and>
   nullish (field (update callback_context) ''edited_message'') \<and>
   chat callback_context = Obj [(''id'', Num 5)]"
proof -
  let ?msg = "[(''message_id'', Num 11), (''chat'', Obj [(''id'', Num 5)])]"
  let ?query = "[(''id'', Str ''1''), (''from'', Obj [(''id'', Num 7)]), (''message'', Obj ?msg)]"
  have h: "nullish (field (update callback_context) ''message'') \<and>
      nullish (field (update callback_context) ''edited_message'') \<and>
      field (update callback_context) ''callback_query'' = Obj ?query \<and>
      field ?query ''message'' = Obj ?msg"
    by (simp add: callback_context_def callback_update_def field_def nullish_def)
  have "chat callback_context = field ?msg ''chat''"
    using chat_first_present [of callback_context ?query ?msg] h by blast
  then show ?thesis using h by (simp add: field_def)
qed

text \<open>
  Claim C8: the resolved sender is the \<^verbatim>\<open>from\<close> field of the first candidate that is
  neither \<^verbatim>\<open>undefined\<close> nor \<^verbatim>\<open>null\<close> among the message, the edited message, the
  callback query, the inline query, the channel post, the edited channel post, the
  shipping query, the pre-checkout query and the chosen inline result, probed in that
  order, and is \<^verbatim>\<open>undefined\<close> when there is none. In particular, for an update with
  both a message and a callback query, the resolved sender is the \<^verbatim>\<open>from\<close> of the
  message.
\<close>

theorem from_first_present:
  "from' c =
     (case find (\<lambda>v. \<not> nullish v)
        [field (update c) ''message'',
         field (update c) ''edited_message'',
         field (update c) ''callback_query'',
         field (update c) ''inline_query'',
         field (update c) ''channel_post'',
         field (update c) ''edited_channel_post'',
         field (update c) ''shipping_query'',
         field (update c) ''pre_checkout_query'',
         field (update c) ''chosen_inline_result'']
      of None \<Rightarrow> Undefined
       | Some candidate \<Rightarrow> opt_prop candidate ''from'')
   \<and>
   (field (update c) ''message'' = Obj msg \<and> field (update c) ''callback_query'' = Obj query
    \<longrightarrow> from' c = field msg ''from'')"
proof -
  have "from' c = field msg ''from''" if "field (update c) ''message'' = Obj msg"
    unfolding from_chain using that by (simp add: nullish_Obj)
  then show ?thesis using from_chain [of c] by blast
qed

theorem from_first_present_witness:
  "field (update message_and_callback_context) ''callback_query'' =
     Obj [(''id'', Str ''1''), (''from'', Obj [(''id'', Num 8)])] \<and>
   from' message_and_callback_context = Obj [(''id'', Num 7)]"
proof -
  let ?msg = "[(''message_id'', Num 10), (''chat'', Obj [(''id'', Num 5)]),
               (''from'', Obj [(''id'', Num 7)])]"
  let ?query = "[(''id'', Str ''1''), (''from'', Obj [(''id'', Num 8)])]"
  have h: "field (update message_and_callback_context) ''message'' = Obj ?msg \<and>
      field (update message_and_callback_context) ''callback_query'' = Obj ?query"
    by (simp add: message_and_callback_context_def message_and_callback_update_def field_def)
  have "from' message_and_callback_context = field ?msg ''from''"
    using from_first_present [of message_and_callback_context ?msg ?query] h by blast
  then show ?thesis using h by (simp add: field_def)
qed

section \<open>The examples, constructed and read\<close>

lemma example_contexts:
  "constructor message_update no_options = Inr message_context"
  "constructor callback_update no_options = Inr callback_context"
  "constructor bare_callback_update no_options = Inr bare_callback_context"
  "constructor message_and_callback_update no_options = Inr message_and_callback_context"
  "constructor inline_query_update no_options = Inr inline_query_context"
  by (simp_all add: constructor_def find_update_type_def UpdateTypes_def has_key_def field_def
      MessageSubTypes_def map_sub_type_def MessageSubTypesMapping_def
      message_update_def message_context_def callback_update_def callback_context_def
      bare_callback_update_def bare_callback_context_def message_and_callback_update_def
      message_and_callback_context_def inline_query_update_def inline_query_context_def
      no_options_def)

lemma example_accessors:
  "chat message_context = Obj [(''id'', Num 5)]"
  "chat callback_context = Obj [(''id'', Num 5)]"
  "chat inline_query_context = Undefined"
  "chat bare_callback_context = Undefined"
  "chat message_and_callback_context = Obj [(''id'', Num 5)]"
  by (simp_all add: chat_def message_def editedMessage_def callbackQuery_def channelPost_def
      editedChannelPost_def coalesce_def nullish_def field_def
      message_update_def message_context_def callback_update_def callback_context_def
      bare_callback_update_def bare_callback_context_def message_and_callback_update_def
      message_and_callback_context_def inline_query_update_def inline_query_context_def)

lemma example_queries:
  "callbackQuery callback_context =
     Obj [(''id'', Str ''1''), (''from'', Obj [(''id'', Num 7)]),
          (''message'', Obj [(''message_id'', Num 11), (''chat'', Obj [(''id'', Num 5)])])]"
  "callbackQuery bare_callback_context = Obj [(''id'', Str ''1''), (''from'', Obj [(''id'', Num 7)])]"
  "callbackQuery message_and_callback_context =
     Obj [(''id'', Str ''1''), (''from'', Obj [(''id'', Num 8)])]"
  "callbackQuery inline_query_context = Undefined"
  "callbackQuery message_context = Undefined"
  "inlineMessageId callback_context = Undefined"
  "inlineMessageId inline_query_context = Undefined"
  by (simp_all add: callbackQuery_def inlineMessageId_def chosenInlineResult_def coalesce_def
      nullish_def field_def
      message_update_def message_context_def callback_update_def callback_context_def
      bare_callback_update_def bare_callback_context_def message_and_callback_update_def
      message_and_callback_context_def inline_query_update_def inline_query_context_def)

lemma example_messages:
  "message message_context =
     Obj [(''message_id'', Num 10), (''chat'', Obj [(''id'', Num 5)]),
          (''from'', Obj [(''id'', Num 7)]), (''text'', Str ''hi'')]"
  "message callback_context = Undefined"
  "message message_and_callback_context =
     Obj [(''message_id'', Num 10), (''chat'', Obj [(''id'', Num 5)]),
          (''from'', Obj [(''id'', Num 7)])]"
  by (simp_all add: message_def field_def
      message_update_def message_context_def callback_update_def callback_context_def
      message_and_callback_update_def message_and_callback_context_def)

section \<open>Guarded dispatch\<close>

lemma get_prop_present: "\<not> nullish v \<Longrightarrow> get_prop v key = Inr (opt_prop v key)"
  by (cases v) (auto simp: nullish_def)

lemma coalesce_Undefined_iff: "coalesce a b = Undefined \<longleftrightarrow> nullish a \<and> b = Undefined"
  by (auto simp: coalesce_def nullish_def)

lemma field_absent: "\<not> has_key fs key \<Longrightarrow> field fs key = Undefined"
  by (simp add: has_key_def field_def)

lemma assert_Undefined: "assert c Undefined method = Inl (Error (unavailable c method))"
  by (simp add: assert_def)

lemma new_example_contexts:
  "constructor no_chat_update no_options = Inr no_chat_context"
  "constructor null_chat_update no_options = Inr null_chat_context"
  "constructor null_message_update no_options = Inr null_message_context"
  by (simp_all add: constructor_def find_update_type_def UpdateTypes_def has_key_def field_def
      MessageSubTypes_def map_sub_type_def MessageSubTypesMapping_def
      no_chat_update_def no_chat_context_def null_chat_update_def null_chat_context_def
      null_message_update_def null_message_context_def no_options_def)

lemma new_example_accessors:
  "chat no_chat_context = Undefined"
  "chat null_chat_context = Null"
  "chat null_message_context = Obj [(''id'', Num 9)]"
  "message null_message_context = Null"
  by (simp_all add: chat_def message_def editedMessage_def callbackQuery_def channelPost_def
      editedChannelPost_def coalesce_def nullish_def field_def
      no_chat_update_def no_chat_context_def null_chat_update_def null_chat_context_def
      null_message_update_def null_message_context_def)

lemma no_chat_context_kinds:
  "updateType no_chat_context = Some ''message''"
  "updateSubTypes no_chat_context = [''text'', ''forward'']"
  "updateType null_chat_context = Some ''message''"
  "updateSubTypes null_chat_context = [''text'']"
  "updateType inline_query_context = Some ''inline_query''"
  "updateSubTypes inline_query_context = []"
  by (simp_all add: no_chat_context_def null_chat_context_def inline_query_context_def)

lemma replyWithMarkdown_example:
  "replyWithMarkdown message_context (Str ''*hi*'') None =
     Inr (Call ''sendMessage'' [Num 5, Str ''*hi*'', Obj [(''parse_mode'', Str ''Markdown'')]])"
  "replyWithHTML message_context (Str ''hi'')
       (Some [(''parse_mode'', Str ''Markdown''), (''disable_notification'', Bool True)]) =
     Inr (Call ''sendMessage''
            [Num 5, Str ''hi'',
             Obj [(''parse_mode'', Str ''Markdown''), (''disable_notification'', Bool True)]])"
  by (simp_all add: replyWithMarkdown_def replyWithHTML_def reply_def chat_scoped_def
      assert_def example_accessors spread_onto_def has_key_def field_def)

lemma join_comma_concat:
  "join_comma ks =
     (case ks of [] \<Rightarrow> [] | k # ks' \<Rightarrow> k @ concat (map (\<lambda>k'. '','' @ k') ks'))"
  by (induction ks rule: join_comma.induct) simp_all

lemma sublist_join_comma: "k \<in> set ks \<Longrightarrow> sublist k (join_comma ks)"
proof (induction ks rule: join_comma.induct)
  case 1
  then show ?case by simp
next
  case (2 x)
  then show ?case by simp
next
  case (3 x y ys)
  show ?case
  proof (cases "k = x")
    case True
    then show ?thesis by (simp add: sublist_append)
  next
    case False
    with 3 have "sublist k (join_comma (y # ys))" by simp
    then show ?thesis by (simp add: sublist_append sublist_Cons_right)
  qed
qed

lemma sublist_unavailable:
  "sublist name (unavailable c name)"
  "sublist (update_type_string c) (unavailable c name)"
  "k \<in> set (updateSubTypes c) \<Longrightarrow> sublist k (unavailable c name)"
proof -
  show "sublist name (unavailable c name)"
    unfolding unavailable_def sublist_def
    by (rule exI [of _ "''Telegraf: '' @ [CHR 0x22]"], rule exI) simp
  show "sublist (update_type_string c) (unavailable c name)"
    unfolding unavailable_def sublist_def
    by (rule exI [of _ "''Telegraf: '' @ [CHR 0x22] @ name @ [CHR 0x22]
          @ '' isn't available for '' @ [CHR 0x22]"], rule exI) simp
  assume "k \<in> set (updateSubTypes c)"
  then obtain ps ss where j: "join_comma (updateSubTypes c) = ps @ k @ ss"
    using sublist_join_comma [of k "updateSubTypes c"] by (auto simp: sublist_def)
  show "sublist k (unavailable c name)"
    unfolding unavailable_def sublist_def j
    by (rule exI [of _ "''Telegraf: '' @ [CHR 0x22] @ name @ [CHR 0x22]
          @ '' isn't available for '' @ [CHR 0x22] @ update_type_string c @ ''::'' @ ps"],
        rule exI [of _ "ss @ [CHR 0x22]"]) simp
qed

lemma chat_scoped_Undefined:
  "chat c = Undefined \<Longrightarrow> chat_scoped name operation c args = Inl (Error (unavailable c name))"
  by (simp add: chat_scoped_def assert_def)

lemma chat_scoped_Null:
  "chat c = Null \<Longrightarrow> chat_scoped name operation c args = Inl TypeError"
  by (simp add: chat_scoped_def assert_def)

text \<open>
  Claim C4 reads: for every update with no resolvable chat, every chat-scoped method
  throws, before any call of the invoker, an error whose message contains the name of
  the operation, the primary kind and the secondary kinds. \<^verbatim>\<open>assert\<close> compares with
  \<^verbatim>\<open>undefined\<close> only: on a message whose chat is \<^verbatim>\<open>null\<close> the guard passes and
  \<^verbatim>\<open>this.chat.id\<close> throws a \<^verbatim>\<open>TypeError\<close>, which names no operation. And the three
  methods built on \<^verbatim>\<open>reply\<close> report the name \<^verbatim>\<open>reply\<close>, not their own.
\<close>

theorem chat_scoped_guard_counterexample:
  "constructor null_chat_update no_options = Inr null_chat_context \<and>
   chat null_chat_context = Null \<and>
   reply null_chat_context [Str ''hello''] = Inl TypeError \<and>
   chat inline_query_context = Undefined \<and>
   replyWithHTML inline_query_context (Str ''hello'') None =
     Inl (Error (''Telegraf: '' @ [CHR 0x22] @ ''reply'' @ [CHR 0x22]
           @ '' isn't available for '' @ [CHR 0x22] @ ''inline_query::'' @ [CHR 0x22])) \<and>
   \<not> sublist ''replyWithHTML''
       (''Telegraf: '' @ [CHR 0x22] @ ''reply'' @ [CHR 0x22]
           @ '' isn't available for '' @ [CHR 0x22] @ ''inline_query::'' @ [CHR 0x22])"
proof -
  have "reply null_chat_context [Str ''hello''] = Inl TypeError"
    by (simp add: reply_def chat_scoped_def assert_def new_example_accessors)
  moreover have "replyWithHTML inline_query_context (Str ''hello'') None =
     Inl (Error (''Telegraf: '' @ [CHR 0x22] @ ''reply'' @ [CHR 0x22]
           @ '' isn't available for '' @ [CHR 0x22] @ ''inline_query::'' @ [CHR 0x22]))"
    by (simp add: replyWithHTML_def reply_def chat_scoped_def assert_def example_accessors
        unavailable_def update_type_string_def no_chat_context_kinds)
  moreover have "\<not> sublist ''replyWithHTML''
       (''Telegraf: '' @ [CHR 0x22] @ ''reply'' @ [CHR 0x22]
           @ '' isn't available for '' @ [CHR 0x22] @ ''inline_query::'' @ [CHR 0x22])"
    by (simp add: sublist_Cons_right)
  ultimately show ?thesis
    by (simp add: new_example_contexts new_example_accessors example_accessors)
qed

text \<open>
  Claim C4, amended: for every update whose resolved chat is \<^verbatim>\<open>undefined\<close>, every
  chat-scoped method (the thirty-eight of \<^verbatim>\<open>chat_scoped_methods\<close>, \<^verbatim>\<open>reply\<close> among
  them, \<^verbatim>\<open>setChatStickerSet\<close>, \<^verbatim>\<open>deleteChatStickerSet\<close>, \<^verbatim>\<open>deleteMessage\<close>) and each
  of \<^verbatim>\<open>replyWithMarkdown\<close>, \<^verbatim>\<open>replyWithMarkdownV2\<close>, \<^verbatim>\<open>replyWithHTML\<close> throws, before
  any call of the invoker, the error of \<^verbatim>\<open>assert\<close>, whose message is that of line 200
  and contains the name given to \<^verbatim>\<open>assert\<close> (the method's own; \<^verbatim>\<open>reply\<close> for the
  three built on it), the primary kind and every secondary kind. For every update whose
  resolved chat is \<^verbatim>\<open>null\<close> these methods throw as well, before any call of the invoker:
  a \<^verbatim>\<open>TypeError\<close>, except that \<^verbatim>\<open>deleteMessage\<close> without an argument, on an update
  without a message of its own, throws the error of \<^verbatim>\<open>assert\<close>.
\<close>

theorem chat_scoped_guard:
  "(let kind = (case updateType c of None \<Rightarrow> ''undefined'' | Some t \<Rightarrow> t);
        kinds = (case updateSubTypes c of
                   [] \<Rightarrow> []
                 | k # ks \<Rightarrow> k @ concat (map (\<lambda>k'. '','' @ k') ks));
        msg = (\<lambda>name. ''Telegraf: '' @ [CHR 0x22] @ name @ [CHR 0x22]
                 @ '' isn't available for '' @ [CHR 0x22] @ kind @ ''::'' @ kinds
                 @ [CHR 0x22])
    in
      (chat c = Undefined \<longrightarrow>
         (\<forall>(name, operation)\<in>set chat_scoped_methods.
            chat_scoped name operation c args = Inl (Error (msg name))) \<and>
         reply c args = Inl (Error (msg ''reply'')) \<and>
         setChatStickerSet c setName = Inl (Error (msg ''setChatStickerSet'')) \<and>
         deleteChatStickerSet c = Inl (Error (msg ''deleteChatStickerSet'')) \<and>
         deleteMessage c messageId = Inl (Error (msg ''deleteMessage'')) \<and>
         replyWithMarkdown c text extra = Inl (Error (msg ''reply'')) \<and>
         replyWithMarkdownV2 c text extra = Inl (Error (msg ''reply'')) \<and>
         replyWithHTML c text extra = Inl (Error (msg ''reply''))) \<and>
      (chat c = Null \<longrightarrow>
         (\<forall>(name, operation)\<in>set chat_scoped_methods.
            chat_scoped name operation c args = Inl TypeError) \<and>
         reply c args = Inl TypeError \<and>
         setChatStickerSet c setName = Inl TypeError \<and>
         deleteChatStickerSet c = Inl TypeError \<and>
         deleteMessage c messageId =
           (if messageId = Undefined \<and> message c = Undefined
            then Inl (Error (msg ''deleteMessage'')) else Inl TypeError) \<and>
         replyWithMarkdown c text extra = Inl TypeError \<and>
         replyWithMarkdownV2 c text extra = Inl TypeError \<and>
         replyWithHTML c text extra = Inl TypeError) \<and>
      sublist name (msg name) \<and>
      sublist kind (msg name) \<and>
      (\<forall>k\<in>set (updateSubTypes c). sublist k (msg name)))"
proof -
  have m: "''Telegraf: '' @ [CHR 0x22] @ n @ [CHR 0x22] @ '' isn't available for ''
        @ [CHR 0x22] @ update_type_string c @ ''::''
        @ (case updateSubTypes c of [] \<Rightarrow> [] | k # ks \<Rightarrow> k @ concat (map (\<lambda>k'. '','' @ k') ks))
        @ [CHR 0x22] = unavailable c n" for n
    by (simp add: unavailable_def join_comma_concat [of "updateSubTypes c"])
  have k: "(case updateType c of None \<Rightarrow> ''undefined'' | Some t \<Rightarrow> t) = update_type_string c"
    by (simp add: update_type_string_def)
  have u: "chat c = Undefined \<longrightarrow>
         (\<forall>(name, operation)\<in>set chat_scoped_methods.
            chat_scoped name operation c args = Inl (Error (unavailable c name))) \<and>
         reply c args = Inl (Error (unavailable c ''reply'')) \<and>
         setChatStickerSet c setName = Inl (Error (unavailable c ''setChatStickerSet'')) \<and>
         deleteChatStickerSet c = Inl (Error (unavailable c ''deleteChatStickerSet'')) \<and>
         deleteMessage c messageId = Inl (Error (unavailable c ''deleteMessage'')) \<and>
         replyWithMarkdown c text extra = Inl (Error (unavailable c ''reply'')) \<and>
         replyWithMarkdownV2 c text extra = Inl (Error (unavailable c ''reply'')) \<and>
         replyWithHTML c text extra = Inl (Error (unavailable c ''reply''))"
    by (auto simp: chat_scoped_Undefined reply_def setChatStickerSet_def
        deleteChatStickerSet_def deleteMessage_def replyWithMarkdown_def
        replyWithMarkdownV2_def replyWithHTML_def assert_def)
  have n: "chat c = Null \<longrightarrow>
         (\<forall>(name, operation)\<in>set chat_scoped_methods.
            chat_scoped name operation c args = Inl TypeError) \<and>
         reply c args = Inl TypeError \<and>
         setChatStickerSet c setName = Inl TypeError \<and>
         deleteChatStickerSet c = Inl TypeError \<and>
         deleteMessage c messageId =
           (if messageId = Undefined \<and> message c = Undefined
            then Inl (Error (unavailable c ''deleteMessage'')) else Inl TypeError) \<and>
         replyWithMarkdown c text extra = Inl TypeError \<and>
         replyWithMarkdownV2 c text extra = Inl TypeError \<and>
         replyWithHTML c text extra = Inl TypeError"
    by (auto simp: chat_scoped_Null reply_def setChatStickerSet_def
        deleteChatStickerSet_def deleteMessage_def replyWithMarkdown_def
        replyWithMarkdownV2_def replyWithHTML_def assert_def)
  have s: "sublist name (unavailable c name) \<and>
      sublist (update_type_string c) (unavailable c name) \<and>
      (\<forall>k\<in>set (updateSubTypes c). sublist k (unavailable c name))"
    using sublist_unavailable by blast
  show ?thesis
    unfolding Let_def m k using u n s by blast
qed

theorem chat_scoped_guard_witness:
  "chat no_chat_context = Undefined \<and>
   reply no_chat_context [Str ''hello''] =
     Inl (Error (''Telegraf: '' @ [CHR 0x22] @ ''reply'' @ [CHR 0x22]
           @ '' isn't available for '' @ [CHR 0x22] @ ''message::text,forward''
           @ [CHR 0x22])) \<and>
   chat_scoped ''replyWithPhoto'' ''sendPhoto'' no_chat_context [Str ''hello''] =
     Inl (Error (''Telegraf: '' @ [CHR 0x22] @ ''replyWithPhoto'' @ [CHR 0x22]
           @ '' isn't available for '' @ [CHR 0x22] @ ''message::text,forward''
           @ [CHR 0x22])) \<and>
   replyWithHTML no_chat_context (Str ''hi'') None =
     Inl (Error (''Telegraf: '' @ [CHR 0x22] @ ''reply'' @ [CHR 0x22]
           @ '' isn't available for '' @ [CHR 0x22] @ ''message::text,forward''
           @ [CHR 0x22])) \<and>
   sublist ''forward''
     (''Telegraf: '' @ [CHR 0x22] @ ''reply'' @ [CHR 0x22]
           @ '' isn't available for '' @ [CHR 0x22] @ ''message::text,forward''
           @ [CHR 0x22]) \<and>
   chat null_chat_context = Null \<and>
   setChatStickerSet null_chat_context (Str ''set'') = Inl TypeError"
  using chat_scoped_guard [of no_chat_context "[Str ''hello'']" "Str ''set''" Undefined
      "Str ''hi''" None "''reply''"]
    chat_scoped_guard [of null_chat_context "[Str ''hello'']" "Str ''set''" Undefined
      "Str ''hi''" None "''reply''"]
  by (simp add: Let_def new_example_accessors no_chat_context_kinds chat_scoped_methods_def)

text \<open>
  Claim C9 reads: on a context with a resolved chat, \<^verbatim>\<open>deleteMessage\<close> called with a
  message id delegates the deletion of that id in the resolved chat; called without
  one, it delegates the deletion of the update's own message when that message is
  present and throws the error of \<^verbatim>\<open>assert\<close> when it is absent. \<^verbatim>\<open>assert\<close> compares
  with \<^verbatim>\<open>undefined\<close> only: when the own message is \<^verbatim>\<open>null\<close> and the chat comes from
  the edited message, the guard passes and \<^verbatim>\<open>this.message.message_id\<close> throws a
  \<^verbatim>\<open>TypeError\<close>.
\<close>

theorem deleteMessage_paths_counterexample:
  "constructor null_message_update no_options = Inr null_message_context \<and>
   chat null_message_context = Obj [(''id'', Num 9)] \<and>
   message null_message_context = Null \<and>
   deleteMessage null_message_context Undefined = Inl TypeError"
  by (simp add: new_example_contexts new_example_accessors deleteMessage_def assert_def)

text \<open>
  Claim C9, amended: on a context with a resolved chat (neither \<^verbatim>\<open>undefined\<close> nor
  \<^verbatim>\<open>null\<close>), \<^verbatim>\<open>deleteMessage\<close> called with a message id delegates the deletion of that
  id in the resolved chat, whatever the update's own message is; called without one,
  it throws the error of \<^verbatim>\<open>assert\<close> when the own message is \<^verbatim>\<open>undefined\<close>, throws a
  \<^verbatim>\<open>TypeError\<close> when it is \<^verbatim>\<open>null\<close>, and otherwise delegates the deletion of the own
  message's id in the resolved chat.
\<close>

theorem deleteMessage_paths:
  assumes "\<not> nullish (chat c)"
  shows "deleteMessage c messageId =
    (if messageId \<noteq> Undefined then
       Inr (Call ''deleteMessage'' [opt_prop (chat c) ''id'', messageId])
     else if message c = Undefined then Inl (Error (unavailable c ''deleteMessage''))
     else if message c = Null then Inl TypeError
     else Inr (Call ''deleteMessage''
                 [opt_prop (chat c) ''id'', opt_prop (message c) ''message_id'']))"
proof -
  from assms have a: "assert c (chat c) ''deleteMessage'' = Inr ()"
    by (auto simp: nullish_def assert_def)
  have b: "get_prop (chat c) ''id'' = Inr (opt_prop (chat c) ''id'')"
    using assms by (rule get_prop_present)
  have d: "get_prop (message c) ''message_id'' = Inr (opt_prop (message c) ''message_id'')"
    if "message c \<noteq> Undefined" "message c \<noteq> Null"
    using that by (intro get_prop_present) (simp add: nullish_def)
  show ?thesis
  proof (cases "message c = Undefined")
    case True
    then show ?thesis by (simp add: deleteMessage_def a b assert_Undefined)
  next
    case False
    then have e: "assert c (message c) ''deleteMessage'' = Inr ()"
      by (simp add: assert_def)
    show ?thesis
    proof (cases "message c = Null")
      case True
      then show ?thesis using e by (simp add: deleteMessage_def a b)
    next
      case False
      with \<open>message c \<noteq> Undefined\<close> show ?thesis
        using e by (simp add: deleteMessage_def a b d)
    qed
  qed
qed

theorem deleteMessage_paths_witness:
  "deleteMessage message_context (Num 99) = Inr (Call ''deleteMessage'' [Num 5, Num 99]) \<and>
   deleteMessage message_context Undefined = Inr (Call ''deleteMessage'' [Num 5, Num 10]) \<and>
   deleteMessage callback_context (Num 99) = Inr (Call ''deleteMessage'' [Num 5, Num 99]) \<and>
   deleteMessage callback_context Undefined =
     Inl (Error (unavailable callback_context ''deleteMessage'')) \<and>
   deleteMessage null_message_context Undefined = Inl TypeError"
proof -
  have h1: "\<not> nullish (chat message_context)" and h2: "\<not> nullish (chat callback_context)"
    and h3: "\<not> nullish (chat null_message_context)"
    by (simp_all add: example_accessors new_example_accessors nullish_def)
  show ?thesis
    using deleteMessage_paths [OF h1, of "Num 99"] deleteMessage_paths [OF h1, of Undefined]
      deleteMessage_paths [OF h2, of "Num 99"] deleteMessage_paths [OF h2, of Undefined]
      deleteMessage_paths [OF h3, of Undefined]
    by (simp add: example_accessors example_messages new_example_accessors field_def)
qed

text \<open>
  Claim C2 reads: each edit-family method throws when both the callback query and the
  inline message id are absent, and otherwise passes the chat id, the message id of
  the callback query and the inline message id to the invoker, followed by the caller's
  own arguments. \<^verbatim>\<open>editMessageLiveLocation\<close> passes the caller's latitude and longitude
  before the three identifiers.
\<close>

theorem edit_live_location_counterexample:
  "constructor callback_update no_options = Inr callback_context \<and>
   editMessageLiveLocation callback_context (Num 48) (Num 2) Undefined =
     Inr (Call ''editMessageLiveLocation''
            [Num 48, Num 2, Num 5, Num 11, Undefined, Undefined]) \<and>
   editMessageLiveLocation callback_context (Num 48) (Num 2) Undefined \<noteq>
     Inr (Call ''editMessageLiveLocation''
            [Num 5, Num 11, Undefined, Num 48, Num 2, Undefined])"
  by (simp add: example_contexts editMessageLiveLocation_def assert_def example_accessors
      example_queries coalesce_def nullish_def field_def)

text \<open>
  Claim C2, amended: each edit-family method throws the error of \<^verbatim>\<open>assert\<close> when the
  callback query is absent (\<^verbatim>\<open>undefined\<close> or \<^verbatim>\<open>null\<close>) and the inline message id is
  absent (\<^verbatim>\<open>undefined\<close>), and otherwise delegates with the resolved chat id, the
  message id of the callback query and the inline message id, followed by the caller's
  own arguments unchanged; except that \<^verbatim>\<open>editMessageLiveLocation\<close> passes the caller's
  latitude and longitude before these three identifiers and the markup after them.
\<close>

theorem edit_family:
  "(let absent = (nullish (callbackQuery c) \<and> inlineMessageId c = Undefined);
        ids = [opt_prop (chat c) ''id'',
               opt_prop (opt_prop (callbackQuery c) ''message'') ''message_id'',
               inlineMessageId c]
    in
      editMessageText c text extra =
        (if absent then Inl (Error (unavailable c ''editMessageText''))
         else Inr (Call ''editMessageText'' (ids @ [text, extra]))) \<and>
      editMessageCaption c caption extra =
        (if absent then Inl (Error (unavailable c ''editMessageCaption''))
         else Inr (Call ''editMessageCaption'' (ids @ [caption, extra]))) \<and>
      editMessageMedia c media extra =
        (if absent then Inl (Error (unavailable c ''editMessageMedia''))
         else Inr (Call ''editMessageMedia'' (ids @ [media, extra]))) \<and>
      editMessageReplyMarkup c markup =
        (if absent then Inl (Error (unavailable c ''editMessageReplyMarkup''))
         else Inr (Call ''editMessageReplyMarkup'' (ids @ [markup]))) \<and>
      stopMessageLiveLocation c markup =
        (if absent then Inl (Error (unavailable c ''stopMessageLiveLocation''))
         else Inr (Call ''stopMessageLiveLocation'' (ids @ [markup]))) \<and>
      editMessageLiveLocation c latitude longitude markup =
        (if absent then Inl (Error (unavailable c ''editMessageLiveLocation''))
         else Inr (Call ''editMessageLiveLocation'' ([latitude, longitude] @ ids @ [markup]))))"
  by (simp add: Let_def editMessageText_def editMessageCaption_def editMessageMedia_def
      editMessageReplyMarkup_def stopMessageLiveLocation_def editMessageLiveLocation_def
      assert_def coalesce_Undefined_iff)

theorem edit_family_witness:
  "editMessageText callback_context (Str ''new'') Undefined =
     Inr (Call ''editMessageText'' [Num 5, Num 11, Undefined, Str ''new'', Undefined]) \<and>
   editMessageText inline_query_context (Str ''new'') Undefined =
     Inl (Error (unavailable inline_query_context ''editMessageText''))"
  using edit_family [of callback_context "Str ''new''" Undefined]
    edit_family [of inline_query_context "Str ''new''" Undefined]
  by (simp add: Let_def example_queries example_accessors nullish_def field_def)

text \<open>
  Claim C3 reads: for every update whose callback query is present and carries neither
  a message nor an inline message id, the edit-family methods call the invoker with
  chat id, message id and inline message id all \<^verbatim>\<open>undefined\<close>. The chat is resolved
  from the message of the update first: on an update that has a message beside such a
  callback query, the chat id passed is the id of that message's chat.
\<close>

theorem bare_callback_counterexample:
  "constructor message_and_callback_update no_options = Inr message_and_callback_context \<and>
   callbackQuery message_and_callback_context =
     Obj [(''id'', Str ''1''), (''from'', Obj [(''id'', Num 8)])] \<and>
   \<not> has_key [(''id'', Str ''1''), (''from'', Obj [(''id'', Num 8)])] ''message'' \<and>
   \<not> has_key [(''id'', Str ''1''), (''from'', Obj [(''id'', Num 8)])] ''inline_message_id'' \<and>
   editMessageText message_and_callback_context (Str ''new'') Undefined =
     Inr (Call ''editMessageText'' [Num 5, Undefined, Undefined, Str ''new'', Undefined]) \<and>
   editMessageText message_and_callback_context (Str ''new'') Undefined \<noteq>
     Inr (Call ''editMessageText'' [Undefined, Undefined, Undefined, Str ''new'', Undefined])"
  by (simp add: example_contexts editMessageText_def assert_def example_accessors
      example_queries coalesce_def nullish_def field_def inlineMessageId_def has_key_def)

lemma inlineMessageId_bare:
  assumes "callbackQuery c = Obj query" "\<not> has_key query ''inline_message_id''"
  shows "inlineMessageId c = Undefined"
  using assms by (simp add: inlineMessageId_def coalesce_def nullish_def field_absent)

text \<open>
  Claim C3, amended: for every update whose callback query is present and carries
  neither a message nor an inline message id, the edit-family methods do not fail, and
  call the invoker with the message id and the inline message id \<^verbatim>\<open>undefined\<close> and with
  the id of the resolved chat; that chat id is \<^verbatim>\<open>undefined\<close> too when the update has
  no message, edited message, channel post or edited channel post.
\<close>

theorem edit_family_bare_callback_query:
  assumes "callbackQuery c = Obj query"
    and "\<not> has_key query ''message''"
    and "\<not> has_key query ''inline_message_id''"
  shows "editMessageText c text extra =
           Inr (Call ''editMessageText''
                  [opt_prop (chat c) ''id'', Undefined, Undefined, text, extra]) \<and>
         editMessageCaption c caption extra =
           Inr (Call ''editMessageCaption''
                  [opt_prop (chat c) ''id'', Undefined, Undefined, caption, extra]) \<and>
         editMessageMedia c media extra =
           Inr (Call ''editMessageMedia''
                  [opt_prop (chat c) ''id'', Undefined, Undefined, media, extra]) \<and>
         editMessageReplyMarkup c markup =
           Inr (Call ''editMessageReplyMarkup''
                  [opt_prop (chat c) ''id'', Undefined, Undefined, markup]) \<and>
         editMessageLiveLocation c latitude longitude markup =
           Inr (Call ''editMessageLiveLocation''
                  [latitude, longitude, opt_prop (chat c) ''id'', Undefined, Undefined, markup]) \<and>
         stopMessageLiveLocation c markup =
           Inr (Call ''stopMessageLiveLocation''
                  [opt_prop (chat c) ''id'', Undefined, Undefined, markup]) \<and>
         (nullish (message c) \<and> nullish (editedMessage c) \<and> nullish (channelPost c) \<and>
          nullish (editedChannelPost c) \<longrightarrow> opt_prop (chat c) ''id'' = Undefined)"
proof -
  have i: "inlineMessageId c = Undefined"
    using assms(1,3) by (rule inlineMessageId_bare)
  have m: "opt_prop (callbackQuery c) ''message'' = Undefined"
    using assms(1,2) by (simp add: field_absent)
  have g: "assert c (coalesce (callbackQuery c) b) name = Inr ()" for b name
    using assms(1) by (simp add: assert_def coalesce_def nullish_def)
  have "chat c = Undefined"
    if "nullish (message c) \<and> nullish (editedMessage c) \<and> nullish (channelPost c) \<and>
        nullish (editedChannelPost c)"
    using that m by (simp add: chat_def coalesce_def opt_prop_nullish nullish_def)
  then show ?thesis
    by (auto simp add: editMessageText_def editMessageCaption_def editMessageMedia_def
        editMessageReplyMarkup_def stopMessageLiveLocation_def editMessageLiveLocation_def
        g i m)
qed

theorem edit_family_bare_callback_query_witness:
  "constructor bare_callback_update no_options = Inr bare_callback_context \<and>
   callbackQuery bare_callback_context =
     Obj [(''id'', Str ''1''), (''from'', Obj [(''id'', Num 7)])] \<and>
   editMessageText bare_callback_context (Str ''new'') Undefined =
     Inr (Call ''editMessageText'' [Undefined, Undefined, Undefined, Str ''new'', Undefined]) \<and>
   stopMessageLiveLocation bare_callback_context Undefined =
     Inr (Call ''stopMessageLiveLocation'' [Undefined, Undefined, Undefined, Undefined])"
proof -
  let ?q = "[(''id'', Str ''1''), (''from'', Obj [(''id'', Num 7)])]"
  have q: "callbackQuery bare_callback_context = Obj ?q"
    by (rule example_queries)
  have m: "\<not> has_key ?q ''message''" and i: "\<not> has_key ?q ''inline_message_id''"
    by (simp_all add: has_key_def)
  show ?thesis
    using edit_family_bare_callback_query [OF q m i, of "Str ''new''" Undefined]
      example_contexts(3) q
    by (simp add: example_accessors)
qed

section \<open>Reading twice\<close>

lemma read_property_pure: "p \<noteq> P_state \<Longrightarrow> snd (read_property p c) = c"
  by (cases p) simp_all

lemma read_property_contextState:
  "fst (read_property p (c\<lparr>contextState := Obj []\<rparr>)) =
     (if p = P_state then Value (Obj []) else fst (read_property p c))"
  by (cases p)
     (simp_all add: me_def message_def editedMessage_def inlineQuery_def shippingQuery_def
        preCheckoutQuery_def chosenInlineResult_def channelPost_def editedChannelPost_def
        callbackQuery_def poll_def pollAnswer_def chat_def from'_def inlineMessageId_def
        passportData_def state_def)

lemma read_property_after:
  "fst (read_property p (snd (read_property q c))) = fst (read_property p c)"
proof (cases "q = P_state")
  case False
  then show ?thesis by (simp add: read_property_pure)
next
  case True
  show ?thesis
  proof (cases "truthy (contextState c)")
    case True
    with \<open>q = P_state\<close> show ?thesis by (simp add: state_def)
  next
    case False
    with \<open>q = P_state\<close> show ?thesis
      by (cases "p = P_state") (simp_all add: state_def read_property_contextState)
  qed
qed

text \<open>
  Claim C10: reading a property of a context a second time yields the value of the
  first read, also when any other property, \<^verbatim>\<open>state\<close> included, was read in between;
  and reading a property other than \<^verbatim>\<open>state\<close> leaves the context as it was.
\<close>

theorem read_property_idempotent:
  "fst (read_property p (snd (read_property p c))) = fst (read_property p c) \<and>
   fst (read_property p (snd (read_property q c))) = fst (read_property p c) \<and>
   (p \<noteq> P_state \<longrightarrow> snd (read_property p c) = c)"
  by (simp add: read_property_after read_property_pure)

theorem read_property_idempotent_witness:
  "fst (read_property P_chat (snd (read_property P_chat message_context))) =
     Value (Obj [(''id'', Num 5)]) \<and>
   fst (read_property P_chat (snd (read_property P_state message_context))) =
     Value (Obj [(''id'', Num 5)]) \<and>
   snd (read_property P_chat message_context) = message_context"
  using read_property_idempotent [of P_chat message_context P_state]
  by (simp add: example_accessors)

end
